theory Spec2Isabelle
  imports Main "HOL-Library.Char_ord" "HOL-Library.List_Lexorder"
begin

section \<open>Data model of the joke-corpus notebook\<close>

text \<open>
  The notebook \<^verbatim>\<open>chistes-nlp.ipynb\<close> chains calls into pandas, spaCy and scikit-learn.
  Python exceptions are values of \<open>exn\<close>; a computation that may raise returns
  \<open>exn + 'a\<close> with \<open>Inl\<close> for the exception.
\<close>

datatype exn =
    AnnotationError
  | IndexError
  | ValueError
  | FileNotFoundError
  | ParserError
  | InvalidIndexError

text \<open>
  One token of a spaCy \<^verbatim>\<open>Doc\<close>, with the attributes the notebook reads
  (\<^verbatim>\<open>token.text\<close>, \<^verbatim>\<open>token.lemma_\<close>, \<^verbatim>\<open>token.pos_\<close>, \<^verbatim>\<open>token.tag_\<close>,
  \<^verbatim>\<open>token.is_stop\<close>). The coarse part of speech is a string, as in spaCy.
\<close>

record token =
  tok_text :: string
  tok_lemma :: string
  tok_pos :: string
  tok_tag :: string
  tok_is_stop :: bool

text \<open>
  The annotator \<^verbatim>\<open>nlp = spacy.load("es")\<close> is an external statistical model. It is a
  parameter of every function that calls it: a function from the document string to the
  token sequence, or to the exception it raises.
\<close>

type_synonym annotator = "string \<Rightarrow> exn + token list"

text \<open>
  A pandas \<^verbatim>\<open>Series\<close> is a sequence of values, each with its index label; the notebook
  reads the table with \<^verbatim>\<open>index_col='id'\<close>, so the labels are the integer ids of the file.
  A \<^verbatim>\<open>DataFrame\<close> is the same with a row of columns as the value.
\<close>

type_synonym 'a series = "(int \<times> 'a) list"

record joke =
  joke_text :: string
  category :: string

type_synonym corpus = "joke series"

section \<open>The content filter\<close>

text \<open>Python's \<^verbatim>\<open>sep.join(xs)\<close>.\<close>

fun join :: "string \<Rightarrow> string list \<Rightarrow> string" where
  "join sep [] = []"
| "join sep [x] = x"
| "join sep (x # y # ys) = x @ sep @ join sep (y # ys)"

text \<open>
  \<^verbatim>\<open>
  def keep_only_content_words(s):
      processed = nlp(s)
      result = [token.lemma_ for token in processed
                if token.pos_ in ('NOUN', 'VERB', 'ADJ', 'ADV')]
      return ' '.join(result)
  \<close>
  An exception of the annotator is not caught, so it leaves the function.
\<close>

definition keep_only_content_words :: "annotator \<Rightarrow> string \<Rightarrow> exn + string" where
  "keep_only_content_words nlp s =
     (case nlp s of
        Inl e \<Rightarrow> Inl e
      | Inr processed \<Rightarrow>
          (let result = map tok_lemma
                 (filter (\<lambda>token. tok_pos token \<in> set [''NOUN'', ''VERB'', ''ADJ'', ''ADV''])
                    processed)
           in Inr (join '' '' result)))"

text \<open>
  \<^verbatim>\<open>Series.apply(f)\<close> calls \<open>f\<close> on each value in row order and keeps the labels;
  the first exception aborts the whole call.
\<close>

fun series_apply :: "('a \<Rightarrow> exn + 'b) \<Rightarrow> 'a series \<Rightarrow> exn + 'b series" where
  "series_apply f [] = Inr []"
| "series_apply f ((i, v) # rest) =
     (case f v of
        Inl e \<Rightarrow> Inl e
      | Inr w \<Rightarrow>
          (case series_apply f rest of
             Inl e \<Rightarrow> Inl e
           | Inr ws \<Rightarrow> Inr ((i, w) # ws)))"

text \<open>\<^verbatim>\<open>df['text']\<close>: one column of the table, labels kept.\<close>

definition text_column :: "corpus \<Rightarrow> string series" where
  "text_column df = map (\<lambda>(i, d). (i, joke_text d)) df"

text \<open>
  The batch step \<^verbatim>\<open>df['filtered_text'] = df['text'].apply(keep_only_content_words)\<close>:
  the value is the new column, or the exception that ended the cell.
\<close>

definition filtered_text_column :: "annotator \<Rightarrow> corpus \<Rightarrow> exn + string series" where
  "filtered_text_column nlp df = series_apply (keep_only_content_words nlp) (text_column df)"

text \<open>Filtering the output of the filter once more.\<close>

definition filter_twice :: "annotator \<Rightarrow> string \<Rightarrow> exn + string" where
  "filter_twice nlp s =
     (case keep_only_content_words nlp s of
        Inl e \<Rightarrow> Inl e
      | Inr out \<Rightarrow> keep_only_content_words nlp out)"

subsection \<open>The filter as the specification words it\<close>

text \<open>
  The policy of the specification: a token qualifies when its coarse part of speech is
  noun, verb, adjective or adverb.
\<close>

definition qualifying :: "token \<Rightarrow> bool" where
  "qualifying t =
     (tok_pos t = ''NOUN'' \<or> tok_pos t = ''VERB'' \<or> tok_pos t = ''ADJ'' \<or> tok_pos t = ''ADV'')"

text \<open>
  The error policy of the specification for the batch: a document the annotator rejects
  is recorded with an empty filtered text, and the batch goes on.
\<close>

definition keep_or_empty :: "annotator \<Rightarrow> string \<Rightarrow> string" where
  "keep_or_empty nlp s =
     (case keep_only_content_words nlp s of Inl e \<Rightarrow> [] | Inr out \<Rightarrow> out)"

definition filtered_text_column_skipping :: "annotator \<Rightarrow> corpus \<Rightarrow> string series" where
  "filtered_text_column_skipping nlp df =
     map (\<lambda>(i, t). (i, keep_or_empty nlp t)) (text_column df)"

subsection \<open>A table-driven annotator for concrete runs\<close>

definition mk_token :: "string \<Rightarrow> string \<Rightarrow> string \<Rightarrow> token" where
  "mk_token t l p = \<lparr>tok_text = t, tok_lemma = l, tok_pos = p, tok_tag = p, tok_is_stop = False\<rparr>"

text \<open>
  The tag of \<^verbatim>\<open>bajo\<close> depends on its context, as the notebook observes of the real
  annotator; the empty text is rejected.
\<close>

definition sample_nlp :: annotator where
  "sample_nlp s =
     (if s = [] then Inl AnnotationError
      else if s = ''el bajo'' then
        Inr [mk_token ''el'' ''el'' ''DET'', mk_token ''bajo'' ''bajo'' ''NOUN'']
      else if s = ''bajo'' then
        Inr [mk_token ''bajo'' ''bajo'' ''ADP'']
      else if s = ''los perros ladran.'' then
        Inr [mk_token ''los'' ''el'' ''DET'', mk_token ''perros'' ''perro'' ''NOUN'',
             mk_token ''ladran'' ''ladrar'' ''VERB'', mk_token ''.'' ''.'' ''PUNCT'']
      else if s = ''perro ladrar'' then
        Inr [mk_token ''perro'' ''perro'' ''NOUN'', mk_token ''ladrar'' ''ladrar'' ''VERB'']
      else if s = ''de la'' then
        Inr [mk_token ''de'' ''de'' ''ADP'', mk_token ''la'' ''el'' ''DET'']
      else Inr [])"

definition mk_joke :: "string \<Rightarrow> string \<Rightarrow> joke" where
  "mk_joke t c = \<lparr>joke_text = t, category = c\<rparr>"

definition sample_batch :: corpus where
  "sample_batch =
     [(0, mk_joke ''los perros ladran.'' ''animales''),
      (1, mk_joke [] ''otros''),
      (2, mk_joke ''el bajo'' ''otros'')]"

section \<open>Shared Python primitives\<close>


text \<open>A list comprehension whose element expression may raise: the first exception ends it.\<close>

fun map_exn :: "('a \<Rightarrow> exn + 'b) \<Rightarrow> 'a list \<Rightarrow> exn + 'b list" where
  "map_exn f [] = Inr []"
| "map_exn f (x # xs) =
     (case f x of
        Inl e \<Rightarrow> Inl e
      | Inr y \<Rightarrow> (case map_exn f xs of Inl e \<Rightarrow> Inl e | Inr ys \<Rightarrow> Inr (y # ys)))"

section \<open>The label encoder\<close>

text \<open>
  Modelled from the spec: scikit-learn's \<^verbatim>\<open>LabelEncoder\<close> is called by the notebook
  (\<^verbatim>\<open>enc = LabelEncoder(); y = enc.fit_transform(df.category)\<close>) and is not part of the
  repository's source. The specification describes it as a mapping from the distinct
  category strings, sorted lexicographically, to the dense integers \<open>[0, k)\<close>, with a
  retrievable inverse. \<open>classes\<close> is the sorted list of distinct labels
  (\<^verbatim>\<open>enc.classes_\<close>), \<open>encode\<close> the position of a label in it, \<open>decode\<close> the label at a
  position; a label or an id that was not fitted raises \<^verbatim>\<open>ValueError\<close>.
\<close>

definition classes :: "string list \<Rightarrow> string list" where
  "classes ys = sort (remdups ys)"

text \<open>
  Modelled from the spec: the dense integer id of a label is its position in the sorted
  list of distinct labels.
\<close>

fun index_of :: "'a \<Rightarrow> 'a list \<Rightarrow> nat option" where
  "index_of x [] = None"
| "index_of x (y # ys) = (if x = y then Some 0 else map_option Suc (index_of x ys))"

text \<open>
  Modelled from the spec: encoding one category string (\<^verbatim>\<open>enc.transform\<close>); a string that
  was not fitted raises.
\<close>

definition encode :: "string list \<Rightarrow> string \<Rightarrow> exn + nat" where
  "encode cls l = (case index_of l cls of None \<Rightarrow> Inl ValueError | Some i \<Rightarrow> Inr i)"

text \<open>
  Modelled from the spec: the inverse mapping (\<^verbatim>\<open>enc.inverse_transform\<close>), from an id back
  to its category string; an id outside \<open>[0, k)\<close> raises.
\<close>

definition decode :: "string list \<Rightarrow> nat \<Rightarrow> exn + string" where
  "decode cls i = (if i < length cls then Inr (cls ! i) else Inl ValueError)"

text \<open>
  Modelled from the spec: \<^verbatim>\<open>enc.fit_transform(df.category)\<close> fits the classes on the label
  column and encodes the column row by row.
\<close>

definition fit_transform :: "string list \<Rightarrow> exn + nat list" where
  "fit_transform ys = map_exn (encode (classes ys)) ys"

section \<open>The visualizer's colours\<close>






section \<open>Top words of the topic model\<close>












section \<open>Appending the topic weights to the table\<close>

text \<open>
  \<^verbatim>\<open>
  topics = lda.transform(X)
  jokes_with_topics_weights = pd.concat(
      [df, pd.DataFrame(topics, columns=[f'topic_{x}' for x in range(0,10)])], axis=1)
  \<close>
  \<^verbatim>\<open>pd.DataFrame(rows)\<close> without an index labels its rows \<open>0, 1, \<dots>, n - 1\<close>.
\<close>

definition DataFrame :: "'a list \<Rightarrow> 'a series" where
  "DataFrame rows = zip (map int [0..<length rows]) rows"

text \<open>
  \<^verbatim>\<open>pd.concat([left, right], axis=1)\<close> puts the columns of two frames side by side, row
  by row of equal label (an outer join on the index). With identical indexes the rows are
  pasted in place. Otherwise the result has one row for each label of either frame, and
  the columns of a frame that lacks the label are missing (\<open>None\<close>, pandas' \<^verbatim>\<open>NaN\<close>); a
  repeated label in either index then raises. Whether the labels of the union are sorted
  depends on the pandas version (the default of \<^verbatim>\<open>sort\<close>), so it is the parameter
  \<open>sort_union\<close>; unsorted, the labels of the left frame come first.
\<close>

definition concat_axis1 ::
  "bool \<Rightarrow> 'a series \<Rightarrow> 'b series \<Rightarrow> exn + (int \<times> 'a option \<times> 'b option) list" where
  "concat_axis1 sort_union left right =
     (let li = map fst left; ri = map fst right in
      if li = ri then
        Inr (map (\<lambda>((i, a), (j, b)). (i, Some a, Some b)) (zip left right))
      else if distinct li \<and> distinct ri then
        (let u = li @ filter (\<lambda>i. i \<notin> set li) ri;
             labels = (if sort_union then sort u else u)
         in Inr (map (\<lambda>i. (i, map_of left i, map_of right i)) labels))
      else Inl InvalidIndexError)"

definition jokes_with_topics_weights ::
  "bool \<Rightarrow> corpus \<Rightarrow> 'w list list \<Rightarrow> exn + (int \<times> joke option \<times> 'w list option) list" where
  "jokes_with_topics_weights sort_union df topics =
     concat_axis1 sort_union df (DataFrame topics)"

text \<open>
  The alignment the specification requires of every stage: row \<open>i\<close> of the result is row
  \<open>i\<close> of the table together with row \<open>i\<close> of the topic weights.
\<close>

definition aligned_rows ::
  "corpus \<Rightarrow> 'w list list \<Rightarrow> (int \<times> joke option \<times> 'w list option) list" where
  "aligned_rows df topics = map (\<lambda>((i, d), t). (i, Some d, Some t)) (zip df topics)"

section \<open>The vectorizers\<close>

text \<open>
  Modelled from the spec: scikit-learn's \<^verbatim>\<open>CountVectorizer\<close> and \<^verbatim>\<open>TfidfVectorizer\<close> are
  called by the notebook and are not part of the repository's source. The specification
  gives the two knobs: the maximum vocabulary size keeps only the top-N most frequent
  qualifying terms, and the maximum document frequency excludes the terms that appear in
  more than the given absolute count of documents; the vocabulary is an ordered set of
  terms; a vocabulary that ends up empty is an error. A document is given as the list of
  its terms, the tokenisation being the vectorizer's own.
  \<^verbatim>\<open>
  max_jokes_with_that_word = 200
  vectorizer20 = CountVectorizer(max_df=max_jokes_with_that_word, max_features=20)
  tfidf_vectorizer = TfidfVectorizer(max_df=max_jokes_with_that_word, max_features=500)
  \<close>
\<close>

record vectorizer =
  max_df :: nat
  max_features :: nat

definition max_jokes_with_that_word :: nat where
  "max_jokes_with_that_word = 200"

definition vectorizer20 :: vectorizer where
  "vectorizer20 = \<lparr>max_df = max_jokes_with_that_word, max_features = 20\<rparr>"

definition tfidf_vectorizer :: vectorizer where
  "tfidf_vectorizer = \<lparr>max_df = max_jokes_with_that_word, max_features = 500\<rparr>"

text \<open>
  Modelled from the spec: the number of documents in which a term appears, and the number
  of times it appears in the whole corpus.
\<close>

definition document_frequency :: "string list list \<Rightarrow> string \<Rightarrow> nat" where
  "document_frequency docs t = length (filter (\<lambda>d. t \<in> set d) docs)"

definition term_frequency :: "string list list \<Rightarrow> string \<Rightarrow> nat" where
  "term_frequency docs t = sum_list (map (\<lambda>d. count_list d t) docs)"

text \<open>
  Modelled from the spec: the vocabulary resolved by a fit. The terms of the corpus that
  appear in at most \<open>max_df\<close> documents qualify; of these the \<open>max_features\<close> most frequent
  are kept (terms of equal frequency in alphabetical order); the vocabulary lists them in
  alphabetical order, the position of a term being its column. An empty vocabulary raises.
\<close>

definition fit_vocabulary :: "vectorizer \<Rightarrow> string list list \<Rightarrow> exn + string list" where
  "fit_vocabulary v docs =
     (let terms = sort (remdups (concat docs));
          qualifying_terms = filter (\<lambda>t. document_frequency docs t \<le> max_df v) terms;
          ranked = sort_key (\<lambda>t. - int (term_frequency docs t)) qualifying_terms;
          vocabulary = sort (take (max_features v) ranked)
      in if vocabulary = [] then Inl ValueError else Inr vocabulary)"

text \<open>A corpus in which one term appears in 201 documents.\<close>

definition common_word_docs :: "string list list" where
  "common_word_docs = replicate 201 [''que''] @ [[''perro'', ''doctor'', ''perro'']]"

section \<open>Reading the corpus\<close>













section \<open>Properties of the content filter\<close>

lemma keep_only_content_words_Inr:
  "nlp s = Inr toks \<Longrightarrow>
   keep_only_content_words nlp s = Inr (join '' '' (map tok_lemma (filter qualifying toks)))"
proof -
  have "(\<lambda>token. tok_pos token \<in> set [''NOUN'', ''VERB'', ''ADJ'', ''ADV'']) = qualifying"
    by (auto simp: fun_eq_iff qualifying_def)
  then show "nlp s = Inr toks \<Longrightarrow> ?thesis"
    by (simp add: keep_only_content_words_def)
qed

lemma keep_only_content_words_Inl:
  "nlp s = Inl e \<Longrightarrow> keep_only_content_words nlp s = Inl e"
  by (simp add: keep_only_content_words_def)

lemma filter_as_indices:
  "filter P xs = map ((!) xs) (filter (\<lambda>i. P (xs ! i)) [0..<length xs])"
proof -
  have "filter P xs = filter P (map ((!) xs) [0..<length xs])"
    by (simp add: map_nth)
  also have "\<dots> = map ((!) xs) (filter (P \<circ> (!) xs) [0..<length xs])"
    by (simp only: filter_map)
  finally show ?thesis by (simp add: comp_def)
qed

text \<open>
  Claim C2. When the annotator returns the tokens \<open>toks\<close> for the document, the filter
  returns the lemmas of exactly the tokens whose part of speech is noun, verb, adjective or
  adverb, joined by single spaces: the kept positions \<open>idx\<close> are strictly increasing
  (original order) and are all positions of qualifying tokens, and only the lemma of each
  is in the output. With no qualifying token the output is the empty string.
\<close>

theorem keep_only_content_words_spec:
  assumes "nlp s = Inr toks"
  shows "(\<exists>idx. keep_only_content_words nlp s = Inr (join '' '' (map (\<lambda>i. tok_lemma (toks ! i)) idx))
            \<and> sorted_wrt (<) idx
            \<and> set idx = {i. i < length toks \<and> qualifying (toks ! i)})
         \<and> ((\<forall>t \<in> set toks. \<not> qualifying t) \<longrightarrow> keep_only_content_words nlp s = Inr [])"
proof (intro conjI impI)
  let ?idx = "filter (\<lambda>i. qualifying (toks ! i)) [0..<length toks]"
  have run: "keep_only_content_words nlp s = Inr (join '' '' (map tok_lemma (filter qualifying toks)))"
    using assms by (rule keep_only_content_words_Inr[of nlp s toks])
  have "map tok_lemma (filter qualifying toks) = map (\<lambda>i. tok_lemma (toks ! i)) ?idx"
    by (subst filter_as_indices) (simp add: comp_def)
  moreover have "sorted_wrt (<) ?idx"
    by (rule sorted_wrt_filter) simp
  moreover have "set ?idx = {i. i < length toks \<and> qualifying (toks ! i)}"
    by auto
  ultimately show "\<exists>idx. keep_only_content_words nlp s = Inr (join '' '' (map (\<lambda>i. tok_lemma (toks ! i)) idx))
            \<and> sorted_wrt (<) idx
            \<and> set idx = {i. i < length toks \<and> qualifying (toks ! i)}"
    using run by (intro exI[of _ ?idx]) simp
next
  assume "\<forall>t \<in> set toks. \<not> qualifying t"
  then have "filter qualifying toks = []"
    by (simp add: filter_empty_conv)
  with keep_only_content_words_Inr[of nlp s toks, OF assms]
  show "keep_only_content_words nlp s = Inr []" by simp
qed

text \<open>
  The theorem at two documents of the table-driven annotator: one with two content words
  between an article and a full stop, one with no content word.
\<close>

theorem keep_only_content_words_spec_witness:
  "sample_nlp ''los perros ladran.'' =
     Inr [mk_token ''los'' ''el'' ''DET'', mk_token ''perros'' ''perro'' ''NOUN'',
          mk_token ''ladran'' ''ladrar'' ''VERB'', mk_token ''.'' ''.'' ''PUNCT'']
   \<and> (\<exists>idx. keep_only_content_words sample_nlp ''los perros ladran.'' =
          Inr (join '' '' (map (\<lambda>i. tok_lemma
            ([mk_token ''los'' ''el'' ''DET'', mk_token ''perros'' ''perro'' ''NOUN'',
              mk_token ''ladran'' ''ladrar'' ''VERB'', mk_token ''.'' ''.'' ''PUNCT''] ! i)) idx))
          \<and> sorted_wrt (<) idx)
   \<and> keep_only_content_words sample_nlp ''los perros ladran.'' = Inr ''perro ladrar''
   \<and> sample_nlp ''de la'' = Inr [mk_token ''de'' ''de'' ''ADP'', mk_token ''la'' ''el'' ''DET'']
   \<and> \<not> qualifying (mk_token ''de'' ''de'' ''ADP'')
   \<and> \<not> qualifying (mk_token ''la'' ''el'' ''DET'')
   \<and> keep_only_content_words sample_nlp ''de la'' = Inr []"
proof -
  have a: "sample_nlp ''los perros ladran.'' =
     Inr [mk_token ''los'' ''el'' ''DET'', mk_token ''perros'' ''perro'' ''NOUN'',
          mk_token ''ladran'' ''ladrar'' ''VERB'', mk_token ''.'' ''.'' ''PUNCT'']"
    by (simp add: sample_nlp_def)
  have b: "sample_nlp ''de la'' = Inr [mk_token ''de'' ''de'' ''ADP'', mk_token ''la'' ''el'' ''DET'']"
    by (simp add: sample_nlp_def)
  have c1: "\<not> qualifying (mk_token ''de'' ''de'' ''ADP'')"
    by (simp add: qualifying_def mk_token_def)
  have c2: "\<not> qualifying (mk_token ''la'' ''el'' ''DET'')"
    by (simp add: qualifying_def mk_token_def)
  have c: "\<forall>t \<in> set [mk_token ''de'' ''de'' ''ADP'', mk_token ''la'' ''el'' ''DET'']. \<not> qualifying t"
    using c1 c2 by simp
  have d: "keep_only_content_words sample_nlp ''los perros ladran.'' = Inr ''perro ladrar''"
    by (simp add: keep_only_content_words_def sample_nlp_def mk_token_def)
  have e: "\<exists>idx. keep_only_content_words sample_nlp ''los perros ladran.'' =
          Inr (join '' '' (map (\<lambda>i. tok_lemma
            ([mk_token ''los'' ''el'' ''DET'', mk_token ''perros'' ''perro'' ''NOUN'',
              mk_token ''ladran'' ''ladrar'' ''VERB'', mk_token ''.'' ''.'' ''PUNCT''] ! i)) idx))
          \<and> sorted_wrt (<) idx"
    using keep_only_content_words_spec[of sample_nlp "''los perros ladran.''" _, OF a]
    by blast
  have f: "keep_only_content_words sample_nlp ''de la'' = Inr []"
    using keep_only_content_words_spec[of sample_nlp "''de la''" _, OF b] c
    by blast
  show ?thesis
    using a b c1 c2 d e f by (intro conjI)
qed

lemma series_apply_fails:
  assumes "\<forall>r \<in> set pre. \<exists>w. f (snd r) = Inr w" and "f v = Inl e"
  shows "series_apply f (pre @ (i, v) # post) = Inl e"
  using assms
proof (induction pre)
  case Nil
  then show ?case by simp
next
  case (Cons r pre)
  obtain j u where r: "r = (j, u)" by (cases r)
  from Cons.prems obtain w where "f u = Inr w" by (auto simp: r)
  moreover have "series_apply f (pre @ (i, v) # post) = Inl e"
    using Cons by simp
  ultimately show ?case by (simp add: r)
qed

lemma series_apply_succeeds:
  assumes "\<forall>r \<in> set xs. \<exists>w. f (snd r) = Inr w"
  shows "\<exists>ws. series_apply f xs = Inr ws \<and> map fst ws = map fst xs
           \<and> (\<forall>k < length xs. f (snd (xs ! k)) = Inr (snd (ws ! k)))"
  using assms
proof (induction xs)
  case Nil
  then show ?case by simp
next
  case (Cons r xs)
  obtain j u where r: "r = (j, u)" by (cases r)
  from Cons.prems obtain w where w: "f u = Inr w" by (auto simp: r)
  from Cons obtain ws where ws: "series_apply f xs = Inr ws" "map fst ws = map fst xs"
    "\<forall>k < length xs. f (snd (xs ! k)) = Inr (snd (ws ! k))" by auto
  have "\<forall>k < length (r # xs). f (snd ((r # xs) ! k)) = Inr (snd (((j, w) # ws) ! k))"
  proof (intro allI impI)
    fix k assume "k < length (r # xs)"
    then show "f (snd ((r # xs) ! k)) = Inr (snd (((j, w) # ws) ! k))"
      using w ws(3) by (cases k) (simp_all add: r)
  qed
  then show ?case using w ws(1,2) by (simp add: r)
qed

section \<open>Filtering twice\<close>

text \<open>
  Claim C3 as stated (a second pass returns the output of the first unchanged, for every
  document) fails for an annotator whose tags depend on context: \<^verbatim>\<open>el bajo\<close> is filtered
  to \<^verbatim>\<open>bajo\<close>, and \<^verbatim>\<open>bajo\<close> alone is tagged as a preposition and filtered to the empty
  string.
\<close>

theorem filter_twice_counterexample:
  "filter_twice sample_nlp ''el bajo'' \<noteq> keep_only_content_words sample_nlp ''el bajo''"
  by (simp add: filter_twice_def keep_only_content_words_def sample_nlp_def mk_token_def)

text \<open>
  Claim C3, amended. The second pass returns the output of the first unchanged whenever the
  annotator, run on that output, tags every token as noun, verb, adjective or adverb and
  the lemmas of its tokens, joined by single spaces, are that output again.
\<close>

theorem filter_twice_fixed_point:
  assumes "keep_only_content_words nlp s = Inr out"
      and "nlp out = Inr toks'"
      and "list_all qualifying toks'"
      and "join '' '' (map tok_lemma toks') = out"
  shows "filter_twice nlp s = keep_only_content_words nlp s"
proof -
  have "filter qualifying toks' = toks'"
    using assms(3) by (simp add: list_all_iff)
  with keep_only_content_words_Inr[of nlp out toks', OF assms(2)] assms(4)
  have "keep_only_content_words nlp out = Inr out" by simp
  with assms(1) show ?thesis by (simp add: filter_twice_def)
qed

text \<open>The amended claim at a document whose lemmas the annotator tags consistently.\<close>

theorem filter_twice_fixed_point_witness:
  "keep_only_content_words sample_nlp ''los perros ladran.'' = Inr ''perro ladrar''
   \<and> sample_nlp ''perro ladrar'' =
        Inr [mk_token ''perro'' ''perro'' ''NOUN'', mk_token ''ladrar'' ''ladrar'' ''VERB'']
   \<and> list_all qualifying
        [mk_token ''perro'' ''perro'' ''NOUN'', mk_token ''ladrar'' ''ladrar'' ''VERB'']
   \<and> join '' '' (map tok_lemma
        [mk_token ''perro'' ''perro'' ''NOUN'', mk_token ''ladrar'' ''ladrar'' ''VERB''])
        = ''perro ladrar''
   \<and> filter_twice sample_nlp ''los perros ladran.'' =
        keep_only_content_words sample_nlp ''los perros ladran.''"
proof -
  have a: "keep_only_content_words sample_nlp ''los perros ladran.'' = Inr ''perro ladrar''"
    by (simp add: keep_only_content_words_def sample_nlp_def mk_token_def)
  have b: "sample_nlp ''perro ladrar'' =
        Inr [mk_token ''perro'' ''perro'' ''NOUN'', mk_token ''ladrar'' ''ladrar'' ''VERB'']"
    by (simp add: sample_nlp_def)
  have c: "list_all qualifying
        [mk_token ''perro'' ''perro'' ''NOUN'', mk_token ''ladrar'' ''ladrar'' ''VERB'']"
    by (simp add: qualifying_def mk_token_def)
  have d: "join '' '' (map tok_lemma
        [mk_token ''perro'' ''perro'' ''NOUN'', mk_token ''ladrar'' ''ladrar'' ''VERB''])
        = ''perro ladrar''"
    by (simp add: mk_token_def)
  from filter_twice_fixed_point[of sample_nlp "''los perros ladran.''" "''perro ladrar''" _, OF a b c d]
  show ?thesis using a b c d by simp
qed

section \<open>The batch step and a rejected document\<close>

text \<open>
  Claim C7 as stated (a rejected document is skipped, recorded as empty, and the batch
  continues) fails: with the second of three documents rejected, the batch step ends with
  the annotator's exception and is not the column of the skipping policy.
\<close>

theorem filtered_text_column_counterexample:
  "filtered_text_column sample_nlp sample_batch = Inl AnnotationError
   \<and> filtered_text_column sample_nlp sample_batch
       \<noteq> Inr (filtered_text_column_skipping sample_nlp sample_batch)"
  by (simp add: filtered_text_column_def text_column_def sample_batch_def mk_joke_def
      keep_only_content_words_def sample_nlp_def mk_token_def)

text \<open>
  Claim C7, amended. The batch step does not catch the annotator's exception: when the
  annotator accepts the documents before a row and rejects that row's document, the step
  ends with that exception and no column is produced. When the annotator accepts every
  document, the step produces the column, with the labels of the table in the same order
  and at each row the filter's output for that row's text.
\<close>

theorem filtered_text_column_fail_fast:
  "((\<forall>r \<in> set pre. \<exists>toks. nlp (joke_text (snd r)) = Inr toks) \<longrightarrow>
      nlp (joke_text d) = Inl e \<longrightarrow>
      filtered_text_column nlp (pre @ (i, d) # post) = Inl e)
   \<and> ((\<forall>r \<in> set df. \<exists>toks. nlp (joke_text (snd r)) = Inr toks) \<longrightarrow>
      (\<exists>col. filtered_text_column nlp df = Inr col
         \<and> map fst col = map fst df
         \<and> (\<forall>k < length df.
              keep_only_content_words nlp (joke_text (snd (df ! k))) = Inr (snd (col ! k)))))"
proof (intro conjI impI)
  assume pre: "\<forall>r \<in> set pre. \<exists>toks. nlp (joke_text (snd r)) = Inr toks"
    and d: "nlp (joke_text d) = Inl e"
  have "\<forall>r \<in> set (text_column pre). \<exists>w. keep_only_content_words nlp (snd r) = Inr w"
    using pre by (fastforce simp: text_column_def keep_only_content_words_def)
  moreover have "keep_only_content_words nlp (joke_text d) = Inl e"
    using d by (rule keep_only_content_words_Inl[of nlp "joke_text d" e])
  ultimately have "series_apply (keep_only_content_words nlp)
      (text_column pre @ (i, joke_text d) # text_column post) = Inl e"
    by (rule series_apply_fails)
  then show "filtered_text_column nlp (pre @ (i, d) # post) = Inl e"
    by (simp add: filtered_text_column_def text_column_def)
next
  assume ok: "\<forall>r \<in> set df. \<exists>toks. nlp (joke_text (snd r)) = Inr toks"
  have "\<forall>r \<in> set (text_column df). \<exists>w. keep_only_content_words nlp (snd r) = Inr w"
    using ok by (fastforce simp: text_column_def keep_only_content_words_def)
  from series_apply_succeeds[OF this]
  obtain col where col: "series_apply (keep_only_content_words nlp) (text_column df) = Inr col"
    "map fst col = map fst (text_column df)"
    "\<forall>k < length (text_column df).
       keep_only_content_words nlp (snd (text_column df ! k)) = Inr (snd (col ! k))"
    by blast
  have "map fst (text_column df) = map fst df"
    by (simp add: text_column_def case_prod_unfold)
  moreover have "\<forall>k < length df. snd (text_column df ! k) = joke_text (snd (df ! k))"
    by (simp add: text_column_def case_prod_unfold)
  moreover have "length (text_column df) = length df"
    by (simp add: text_column_def)
  ultimately show "\<exists>col. filtered_text_column nlp df = Inr col
         \<and> map fst col = map fst df
         \<and> (\<forall>k < length df.
              keep_only_content_words nlp (joke_text (snd (df ! k))) = Inr (snd (col ! k)))"
    using col by (auto simp: filtered_text_column_def)
qed

text \<open>
  The amended claim at the three-document batch with the empty second text, and at the
  two accepted documents alone.
\<close>

theorem filtered_text_column_fail_fast_witness:
  "(\<exists>toks. sample_nlp (joke_text (mk_joke ''los perros ladran.'' ''animales'')) = Inr toks)
   \<and> sample_nlp (joke_text (mk_joke [] ''otros'')) = Inl AnnotationError
   \<and> filtered_text_column sample_nlp
        ([(0, mk_joke ''los perros ladran.'' ''animales'')] @ (1, mk_joke [] ''otros'')
           # [(2, mk_joke ''el bajo'' ''otros'')]) = Inl AnnotationError
   \<and> (\<exists>toks. sample_nlp (joke_text (mk_joke ''el bajo'' ''otros'')) = Inr toks)
   \<and> (\<exists>col. filtered_text_column sample_nlp
                [(0, mk_joke ''los perros ladran.'' ''animales''),
                 (2, mk_joke ''el bajo'' ''otros'')] = Inr col
          \<and> map fst col = [0, 2])"
proof -
  have a: "\<forall>r \<in> set [(0::int, mk_joke ''los perros ladran.'' ''animales'')].
       \<exists>toks. sample_nlp (joke_text (snd r)) = Inr toks"
    by (simp add: sample_nlp_def mk_joke_def)
  have b: "sample_nlp (joke_text (mk_joke [] ''otros'')) = Inl AnnotationError"
    by (simp add: sample_nlp_def mk_joke_def)
  have c: "\<forall>r \<in> set [(0::int, mk_joke ''los perros ladran.'' ''animales''),
                  (2, mk_joke ''el bajo'' ''otros'')].
         \<exists>toks. sample_nlp (joke_text (snd r)) = Inr toks"
    by (simp add: sample_nlp_def mk_joke_def)
  note inst = filtered_text_column_fail_fast[of
      "[(0, mk_joke ''los perros ladran.'' ''animales'')]" sample_nlp
      "mk_joke [] ''otros''" AnnotationError 1 "[(2, mk_joke ''el bajo'' ''otros'')]"
      "[(0, mk_joke ''los perros ladran.'' ''animales''), (2, mk_joke ''el bajo'' ''otros'')]"]
  from inst a b have d: "filtered_text_column sample_nlp
        ([(0, mk_joke ''los perros ladran.'' ''animales'')] @ (1, mk_joke [] ''otros'')
           # [(2, mk_joke ''el bajo'' ''otros'')]) = Inl AnnotationError"
    by blast
  from inst c have e: "\<exists>col. filtered_text_column sample_nlp
                [(0, mk_joke ''los perros ladran.'' ''animales''),
                 (2, mk_joke ''el bajo'' ''otros'')] = Inr col
          \<and> map fst col = [0, 2]"
    by auto
  from a b c d e show ?thesis by simp
qed

section \<open>Properties of the label encoder\<close>

lemma index_of_Some: "index_of x xs = Some i \<Longrightarrow> i < length xs \<and> xs ! i = x"
  by (induction xs arbitrary: i) (auto split: if_splits)

lemma index_of_mem: "x \<in> set xs \<Longrightarrow> \<exists>i. index_of x xs = Some i"
  by (induction xs) auto

lemma index_of_nth: "distinct xs \<Longrightarrow> i < length xs \<Longrightarrow> index_of (xs ! i) xs = Some i"
proof (induction xs arbitrary: i)
  case Nil
  then show ?case by simp
next
  case (Cons a xs)
  show ?case
  proof (cases i)
    case 0
    then show ?thesis by simp
  next
    case (Suc j)
    with Cons.prems have "xs ! j \<in> set xs" "a \<notin> set xs" by auto
    then have "xs ! j \<noteq> a" by auto
    with Cons Suc show ?thesis by simp
  qed
qed

lemma classes_props:
  "set (classes ys) = set ys" "distinct (classes ys)" "sorted (classes ys)"
  "length (classes ys) = card (set ys)"
proof -
  show "set (classes ys) = set ys" "distinct (classes ys)" "sorted (classes ys)"
    by (simp_all add: classes_def)
  then show "length (classes ys) = card (set ys)"
    by (metis distinct_card)
qed

lemma map_exn_all_Inr:
  "(\<And>x. x \<in> set xs \<Longrightarrow> f x = Inr (g x)) \<Longrightarrow> map_exn f xs = Inr (map g xs)"
  by (induction xs) auto

lemma sorted_distinct_nth_less:
  fixes xs :: "'a::linorder list"
  assumes "sorted xs" "distinct xs" "i < length xs" "j < length xs"
  shows "xs ! i < xs ! j \<longleftrightarrow> i < j"
proof -
  have s: "sorted_wrt (<) xs"
    using assms(1,2) by (simp add: strict_sorted_iff)
  show ?thesis
  proof
    assume lt: "xs ! i < xs ! j"
    show "i < j"
    proof (rule ccontr)
      assume "\<not> i < j"
      then consider "i = j" | "j < i" by linarith
      then show False
      proof cases
        case 1
        with lt show False by simp
      next
        case 2
        with s assms(3) have "xs ! j < xs ! i" by (simp add: sorted_wrt_iff_nth_less)
        with lt show False by simp
      qed
    qed
  next
    assume "i < j"
    with s assms(4) show "xs ! i < xs ! j" by (simp add: sorted_wrt_iff_nth_less)
  qed
qed

lemma encode_Inr:
  assumes "l \<in> set ys"
  shows "\<exists>i. encode (classes ys) l = Inr i \<and> i < card (set ys) \<and> classes ys ! i = l"
proof -
  from assms have "l \<in> set (classes ys)" by (simp add: classes_props)
  then obtain i where i: "index_of l (classes ys) = Some i" using index_of_mem by fastforce
  from index_of_Some[OF i] have "i < card (set ys)" "classes ys ! i = l"
    by (simp_all add: classes_props)
  with i show ?thesis by (simp add: encode_def)
qed

lemma encode_nth_classes:
  assumes "i < card (set ys)"
  shows "classes ys ! i \<in> set ys \<and> encode (classes ys) (classes ys ! i) = Inr i"
proof -
  from assms have i: "i < length (classes ys)" by (simp add: classes_props)
  then have "classes ys ! i \<in> set (classes ys)" by (rule nth_mem)
  then have "classes ys ! i \<in> set ys" by (simp add: classes_props)
  moreover have "index_of (classes ys ! i) (classes ys) = Some i"
    using classes_props(2) i by (rule index_of_nth)
  ultimately show ?thesis by (simp add: encode_def)
qed



text \<open>
  Claim C4. On the labels \<open>ys\<close> that were fitted, the encoder is a bijection from the set of
  distinct category strings onto the integers \<open>0, \<dots>, k - 1\<close>, where \<open>k\<close> is the number
  of distinct strings; it follows the lexicographic order of the strings; decoding the id
  of an observed string returns the string; and \<^verbatim>\<open>fit_transform\<close> returns the id of each
  label, row by row, without raising.
\<close>

theorem label_encoder_bijective_roundtrip:
  "\<exists>enc. (\<forall>l \<in> set ys. encode (classes ys) l = Inr (enc l)
                      \<and> decode (classes ys) (enc l) = Inr l)
         \<and> bij_betw enc (set ys) {0..<card (set ys)}
         \<and> (\<forall>l \<in> set ys. \<forall>l' \<in> set ys. (l < l') = (enc l < enc l'))
         \<and> fit_transform ys = Inr (map enc ys)"
proof -
  let ?cls = "classes ys"
  let ?enc = "\<lambda>l. case encode ?cls l of Inr i \<Rightarrow> i | Inl e \<Rightarrow> 0"
  note cp = classes_props[of ys]
  have enc: "encode ?cls l = Inr (?enc l)" and rng: "?enc l < card (set ys)"
    and nth_enc: "?cls ! ?enc l = l" if "l \<in> set ys" for l
    using encode_Inr[OF that] by auto
  have e1: "\<forall>l \<in> set ys. encode ?cls l = Inr (?enc l) \<and> decode ?cls (?enc l) = Inr l"
  proof
    fix l assume l: "l \<in> set ys"
    from rng[OF l] nth_enc[OF l] have "decode ?cls (?enc l) = Inr l"
      by (simp add: decode_def cp(4))
    with enc[OF l] show "encode ?cls l = Inr (?enc l) \<and> decode ?cls (?enc l) = Inr l" ..
  qed
  have inj: "inj_on ?enc (set ys)"
  proof (rule inj_onI)
    fix a b assume a: "a \<in> set ys" and b: "b \<in> set ys" and eq: "?enc a = ?enc b"
    have "a = ?cls ! ?enc a" by (rule nth_enc[OF a, symmetric])
    also have "\<dots> = ?cls ! ?enc b" by (simp only: eq)
    also have "\<dots> = b" by (rule nth_enc[OF b])
    finally show "a = b" .
  qed
  have img: "?enc ` set ys = {0..<card (set ys)}"
  proof (intro equalityI subsetI)
    fix i assume "i \<in> ?enc ` set ys"
    then show "i \<in> {0..<card (set ys)}" using rng by auto
  next
    fix i assume "i \<in> {0..<card (set ys)}"
    then have i: "i < card (set ys)" by simp
    from encode_nth_classes[OF i]
    have "?cls ! i \<in> set ys" and "?enc (?cls ! i) = i" by simp_all
    then show "i \<in> ?enc ` set ys" by (rule rev_image_eqI[OF _ sym])
  qed
  have e2: "bij_betw ?enc (set ys) {0..<card (set ys)}"
    using inj img by (simp add: bij_betw_def)
  have e3: "\<forall>l \<in> set ys. \<forall>l' \<in> set ys. (l < l') = (?enc l < ?enc l')"
  proof (intro ballI)
    fix l l' assume l: "l \<in> set ys" and l': "l' \<in> set ys"
    have "(?cls ! ?enc l < ?cls ! ?enc l') = (?enc l < ?enc l')"
      using cp(3) cp(2) rng[OF l] rng[OF l'] unfolding cp(4)[symmetric]
      by (rule sorted_distinct_nth_less)
    then show "(l < l') = (?enc l < ?enc l')"
      by (simp only: nth_enc[OF l] nth_enc[OF l'])
  qed
  have e4: "fit_transform ys = Inr (map ?enc ys)"
    unfolding fit_transform_def
    by (rule map_exn_all_Inr) (rule enc)
  from e1 e2 e3 e4 show ?thesis by (intro exI[of _ ?enc] conjI)
qed

text \<open>The theorem at a label column with a repeated category.\<close>

theorem label_encoder_bijective_roundtrip_witness:
  "fit_transform [''otros'', ''animales'', ''familia'', ''otros''] = Inr [2, 0, 1, 2]
   \<and> (\<exists>enc. encode (classes [''otros'', ''animales'', ''familia'', ''otros'']) ''familia''
              = Inr (enc ''familia'')
          \<and> decode (classes [''otros'', ''animales'', ''familia'', ''otros'']) (enc ''familia'')
              = Inr ''familia''
          \<and> bij_betw enc (set [''otros'', ''animales'', ''familia'', ''otros''])
               {0..<card (set [''otros'', ''animales'', ''familia'', ''otros''])}
          \<and> (''animales'' < ''familia'') = (enc ''animales'' < enc ''familia''))"
proof -
  have a: "fit_transform [''otros'', ''animales'', ''familia'', ''otros''] = Inr [2, 0, 1, 2]"
    by (simp add: fit_transform_def classes_def encode_def)
  have m: "''familia'' \<in> set [''otros'', ''animales'', ''familia'', ''otros'']"
    "''animales'' \<in> set [''otros'', ''animales'', ''familia'', ''otros'']"
    by simp_all
  from label_encoder_bijective_roundtrip[of "[''otros'', ''animales'', ''familia'', ''otros'']"]
  obtain enc where
    e1: "\<forall>l \<in> set [''otros'', ''animales'', ''familia'', ''otros''].
           encode (classes [''otros'', ''animales'', ''familia'', ''otros'']) l = Inr (enc l)
           \<and> decode (classes [''otros'', ''animales'', ''familia'', ''otros'']) (enc l) = Inr l"
    and e2: "bij_betw enc (set [''otros'', ''animales'', ''familia'', ''otros''])
               {0..<card (set [''otros'', ''animales'', ''familia'', ''otros''])}"
    and e3: "\<forall>l \<in> set [''otros'', ''animales'', ''familia'', ''otros''].
             \<forall>l' \<in> set [''otros'', ''animales'', ''familia'', ''otros''].
               (l < l') = (enc l < enc l')"
    by blast
  from e1 m(1) have f1: "encode (classes [''otros'', ''animales'', ''familia'', ''otros'']) ''familia''
              = Inr (enc ''familia'')"
    and f2: "decode (classes [''otros'', ''animales'', ''familia'', ''otros'']) (enc ''familia'')
              = Inr ''familia''"
    by blast+
  from e3 m have f3: "(''animales'' < ''familia'') = (enc ''animales'' < enc ''familia'')"
    by blast
  from a f1 f2 e2 f3 show ?thesis by blast
qed

section \<open>Properties of the visualizer's colours\<close>








section \<open>Properties of the top words\<close>











section \<open>Properties of the table with topic weights\<close>

lemma DataFrame_labels: "map fst (DataFrame rows) = map int [0..<length rows]"
  by (simp add: DataFrame_def)

text \<open>
  When the ids of the file are \<open>0, 1, \<dots>, n - 1\<close> in file order, the two indexes are
  identical and the rows are aligned.
\<close>

lemma jokes_with_topics_weights_aligned:
  assumes "map fst df = map int [0..<length df]" and "length topics = length df"
  shows "jokes_with_topics_weights sort_union df topics = Inr (aligned_rows df topics)"
proof -
  have same: "map fst df = map fst (DataFrame topics)"
    using assms by (simp add: DataFrame_labels)
  have len: "length (DataFrame topics) = length df"
    using assms(2) by (simp add: DataFrame_def)
  have "map (\<lambda>((i, a), (j, b)). (i, Some a, Some b)) (zip df (DataFrame topics))
          = aligned_rows df topics"
  proof (rule nth_equalityI)
    show "length (map (\<lambda>((i, a), (j, b)). (i, Some a, Some b)) (zip df (DataFrame topics)))
            = length (aligned_rows df topics)"
      using len assms(2) by (simp add: aligned_rows_def)
  next
    fix k assume "k < length (map (\<lambda>((i, a), (j, b)). (i, Some a, Some b)) (zip df (DataFrame topics)))"
    then have k: "k < length df" using len by simp
    then have "DataFrame topics ! k = (int k, topics ! k)"
      using assms(2) by (simp add: DataFrame_def)
    with k len assms(2)
    show "map (\<lambda>((i, a), (j, b)). (i, Some a, Some b)) (zip df (DataFrame topics)) ! k
            = aligned_rows df topics ! k"
      by (simp add: aligned_rows_def case_prod_unfold)
  qed
  with same show ?thesis
    by (simp add: jokes_with_topics_weights_def concat_axis1_def)
qed

text \<open>
  Claim C1 requires that appending the topic-weight columns keeps row \<open>i\<close> of the table
  with row \<open>i\<close> of the weights for every corpus. For a corpus of two documents whose ids
  are 1 and 2 the notebook's \<^verbatim>\<open>pd.concat\<close> returns three rows, whichever the order of the
  union: the document with id 1, the first of the table, is paired with the weights of
  the second document, the document with id 2 has no weights, and the weights of the
  first document stand in a row with no document. This is not the aligned table.
\<close>

theorem jokes_with_topics_weights_misaligned:
  "jokes_with_topics_weights False [(1, a), (2, b)] [ta, tb]
     = Inr [(1, Some a, Some tb), (2, Some b, None), (0, None, Some ta)]
   \<and> jokes_with_topics_weights True [(1, a), (2, b)] [ta, tb]
     = Inr [(0, None, Some ta), (1, Some a, Some tb), (2, Some b, None)]
   \<and> aligned_rows [(1, a), (2, b)] [ta, tb] = [(1, Some a, Some ta), (2, Some b, Some tb)]
   \<and> jokes_with_topics_weights sort_union [(1, a), (2, b)] [ta, tb]
     \<noteq> Inr (aligned_rows [(1, a), (2, b)] [ta, tb])"
  by (cases sort_union)
    (simp_all add: jokes_with_topics_weights_def concat_axis1_def DataFrame_def aligned_rows_def)

section \<open>Properties of the vectorizers\<close>

lemma fit_vocabulary_bounds:
  assumes "fit_vocabulary v docs = Inr vocab"
  shows "length vocab \<le> max_features v"
    and "\<forall>t \<in> set vocab. document_frequency docs t \<le> max_df v"
proof -
  let ?terms = "sort (remdups (concat docs))"
  let ?qual = "filter (\<lambda>t. document_frequency docs t \<le> max_df v) ?terms"
  let ?ranked = "sort_key (\<lambda>t. - int (term_frequency docs t)) ?qual"
  from assms have vocab: "vocab = sort (take (max_features v) ?ranked)"
    by (simp add: fit_vocabulary_def Let_def split: if_splits)
  show "length vocab \<le> max_features v"
    by (simp add: vocab)
  have "set vocab \<subseteq> set ?ranked"
    unfolding vocab using set_take_subset[of "max_features v" ?ranked] by simp
  also have "set ?ranked = set ?qual" by simp
  finally show "\<forall>t \<in> set vocab. document_frequency docs t \<le> max_df v"
    by auto
qed

text \<open>
  Claim C5. After a fit that does not raise, the vocabulary of the exploratory vectorizer
  has at most 20 terms and that of the tf-idf vectorizer at most 500, and no term of
  either vocabulary appears in more than 200 documents.
\<close>

theorem fit_vocabulary_configured_bounds:
  "(fit_vocabulary vectorizer20 docs = Inr vocab \<longrightarrow>
      length vocab \<le> 20 \<and> (\<forall>t \<in> set vocab. document_frequency docs t \<le> 200))
   \<and> (fit_vocabulary tfidf_vectorizer docs = Inr vocab \<longrightarrow>
      length vocab \<le> 500 \<and> (\<forall>t \<in> set vocab. document_frequency docs t \<le> 200))"
proof (intro conjI impI)
  assume a: "fit_vocabulary vectorizer20 docs = Inr vocab"
  from fit_vocabulary_bounds[OF a]
  show "length vocab \<le> 20" "\<forall>t \<in> set vocab. document_frequency docs t \<le> 200"
    by (simp_all add: vectorizer20_def max_jokes_with_that_word_def)
next
  assume a: "fit_vocabulary tfidf_vectorizer docs = Inr vocab"
  from fit_vocabulary_bounds[OF a]
  show "length vocab \<le> 500" "\<forall>t \<in> set vocab. document_frequency docs t \<le> 200"
    by (simp_all add: tfidf_vectorizer_def max_jokes_with_that_word_def)
qed

text \<open>
  The theorem at a corpus of 202 documents: the term of 201 documents is excluded from
  both vocabularies.
\<close>

theorem fit_vocabulary_configured_bounds_witness:
  "fit_vocabulary vectorizer20 common_word_docs = Inr [''doctor'', ''perro'']
   \<and> fit_vocabulary tfidf_vectorizer common_word_docs = Inr [''doctor'', ''perro'']
   \<and> document_frequency common_word_docs ''que'' = 201
   \<and> length [''doctor'', ''perro''] \<le> (20::nat)
   \<and> document_frequency common_word_docs ''doctor'' \<le> 200
   \<and> document_frequency common_word_docs ''perro'' \<le> 200"
proof -
  have a: "fit_vocabulary vectorizer20 common_word_docs = Inr [''doctor'', ''perro'']"
    by code_simp
  have b: "fit_vocabulary tfidf_vectorizer common_word_docs = Inr [''doctor'', ''perro'']"
    by code_simp
  have c: "document_frequency common_word_docs ''que'' = 201"
    by code_simp
  from fit_vocabulary_configured_bounds[of common_word_docs "[''doctor'', ''perro'']"] a b
  have d: "length [''doctor'', ''perro''] \<le> (20::nat)"
    and e: "\<forall>t \<in> set [''doctor'', ''perro'']. document_frequency common_word_docs t \<le> 200"
    by blast+
  from e have f: "document_frequency common_word_docs ''doctor'' \<le> 200"
    and g: "document_frequency common_word_docs ''perro'' \<le> 200" by simp_all
  from a b c d f g show ?thesis by (intro conjI)
qed

section \<open>Properties of the corpus loader\<close>




end
